theory Spec2Isabelle
  imports Complex_Main
begin

section \<open>NGX stock oracle keeper: data model\<close>

text \<open>
  The development embeds three Python modules of the keeper:
  \<^item> \<^verbatim>\<open>ngx_fetcher.py\<close>: \<^verbatim>\<open>NGXDataParser.parse_ngx_string\<close>;
  \<^item> \<^verbatim>\<open>blockchain_interface.py\<close>: \<^verbatim>\<open>OracleContract._send_transaction\<close> and
    \<^verbatim>\<open>OracleContract.batch_update_prices\<close>;
  \<^item> \<^verbatim>\<open>ngx_oracle_keeper.py\<close>: \<^verbatim>\<open>NGXOracleKeeper.should_update_price\<close> and
    \<^verbatim>\<open>NGXOracleKeeper.update_prices\<close>.

  A Python float (a price, the change threshold) is the real number it denotes, of type
  \<^typ>\<open>real\<close>. Float arithmetic rounds: an operation returns \<open>rnd\<close> of the exact result, where
  \<open>rnd\<close> is the rounding of the interpreter's doubles (IEEE 754 binary64, round to nearest,
  ties to even). The rounding is a parameter of every function that does float arithmetic, so
  what is proved holds for every rounding; \<open>binary64\<close> below is the one of the doubles, on the
  normal range. Comparisons and \<^verbatim>\<open>abs\<close> are exact. Infinities and NaN are not modelled.
  Python integers are \<^typ>\<open>int\<close>. Exceptions are values of \<^typ>\<open>'e + 'a\<close> or
  \<^typ>\<open>'a option\<close>. Log output and sleeping are left out; the wall-clock fields
  (\<^verbatim>\<open>timestamp\<close>, \<^verbatim>\<open>start_time\<close>) are left out as well.
\<close>

datatype py_error = ZeroDivisionError | ValueError

text \<open>The dictionary appended by \<^verbatim>\<open>parse_ngx_string\<close>; the keeper reads \<^verbatim>\<open>symbol\<close> and \<^verbatim>\<open>price\<close>.\<close>

record stock =
  symbol :: string
  price :: real
  change :: real
  source :: string

text \<open>The settings of \<^verbatim>\<open>Config\<close> that the update cycle reads.\<close>

record config =
  MIN_PRICE_CHANGE_PERCENT :: real
  BATCH_SIZE :: int
  MAX_GAS_PRICE_GWEI :: int

text \<open>The transaction receipt, and the transaction that \<^verbatim>\<open>batch_update_prices\<close> builds.\<close>

record receipt =
  status :: int
  gasUsed :: int
  blockNumber :: int

record transaction =
  tx_symbols :: "string list"
  tx_prices_wei :: "int list"
  tx_nonce :: int
  tx_gas :: int
  tx_gasPrice :: int

text \<open>
  What the node and the \<^verbatim>\<open>web3\<close> library answer during one call of
  \<^verbatim>\<open>batch_update_prices\<close>; \<open>None\<close> stands for a raised exception.
  \<^item> \<open>to_wei\<close>: \<^verbatim>\<open>w3.to_wei(p, 'ether')\<close>;
  \<^item> \<open>eth_gas_price k\<close>: the \<open>k\<close>-th read of \<^verbatim>\<open>w3.eth.gas_price\<close> (in wei) within the call;
  \<^item> \<open>get_transaction_count\<close>: the nonce;
  \<^item> \<open>build_transaction\<close>: whether \<^verbatim>\<open>updatePrices(...).build_transaction\<close> returns;
  \<^item> \<open>wait_for_transaction_receipt\<close>: signing, sending and waiting (300 s timeout) for the
    receipt of a transaction.
\<close>

record web3 =
  to_wei :: "real \<Rightarrow> int option"
  eth_gas_price :: "nat \<Rightarrow> int option"
  get_transaction_count :: "int option"
  build_transaction :: bool
  wait_for_transaction_receipt :: "transaction \<Rightarrow> receipt option"

text \<open>
  The keeper object: \<^verbatim>\<open>self.last_prices\<close>, the counters of \<^verbatim>\<open>self.stats\<close>, and the history
  of the calls of \<^verbatim>\<open>self.contract.batch_update_prices\<close> (the effect on the chain client,
  made explicit).
\<close>

record keeper =
  last_prices :: "string \<rightharpoonup> real"
  total_updates :: int
  successful_updates :: int
  failed_updates :: int
  total_stocks_updated :: int
  contract_calls :: "(string \<times> real) list list"

section \<open>The rounding of doubles\<close>

text \<open>
  Rounding a real number to the nearest double, ties to the even significand: with
  \<open>2\<^sup>e \<le> \<bar>x\<bar> < 2\<^sup>e\<^sup>+\<^sup>1\<close> the doubles around \<open>x\<close> are the multiples of \<open>2\<^sup>e\<^sup>-\<^sup>5\<^sup>2\<close> (53
  significant bits). The exponent is not bounded here: overflow to infinity and the subnormal
  numbers are left out.
\<close>

definition round_half_even :: "real \<Rightarrow> int" where
  "round_half_even x =
     (let f = \<lfloor>x\<rfloor>; r = x - of_int f
      in if r < 1 / 2 then f else if 1 / 2 < r then f + 1 else if even f then f else f + 1)"

definition binary64 :: "real \<Rightarrow> real" where
  "binary64 x =
     (if x = 0 then 0
      else let e = \<lfloor>log 2 \<bar>x\<bar>\<rfloor>
           in of_int (round_half_even (x * 2 powi (52 - e))) * 2 powi (e - 52))"

section \<open>\<^verbatim>\<open>NGXDataParser.parse_ngx_string\<close>\<close>

text \<open>
  \<^verbatim>\<open>re.findall\<close> with the three-group pattern and the builtin \<^verbatim>\<open>float\<close> are library functions:
  they are parameters \<open>findall\<close> (the list of group triples) and \<open>float\<close> (\<open>None\<close> for
  \<^verbatim>\<open>ValueError\<close>). A tuple of \<^verbatim>\<open>re.findall\<close> always has three components, so \<^verbatim>\<open>change_str\<close> is
  the third group.
\<close>

definition remove_commas :: "string \<Rightarrow> string" where
  "remove_commas s = filter (\<lambda>c. c \<noteq> CHR '','') s"

fun parse_matches ::
  "(string \<Rightarrow> real option) \<Rightarrow> (string \<times> string \<times> string) list \<Rightarrow> stock list \<Rightarrow> stock list"
where
  "parse_matches float [] stocks = stocks"
| "parse_matches float ((sy, g2, change_str) # matches) stocks =
     (case float (remove_commas g2) of
        None \<Rightarrow> parse_matches float matches stocks
      | Some p \<Rightarrow>
          (case (if change_str \<noteq> [] then float change_str else Some 0) of
             None \<Rightarrow> parse_matches float matches stocks
           | Some c \<Rightarrow>
               if p > 50000 then parse_matches float matches stocks
               else parse_matches float matches
                      (stocks @ [\<lparr>symbol = sy, price = p, change = c,
                                  source = ''NGX Website (30min delayed)''\<rparr>])))"

definition parse_ngx_string ::
  "(string \<Rightarrow> (string \<times> string \<times> string) list) \<Rightarrow> (string \<Rightarrow> real option) \<Rightarrow> string \<Rightarrow> stock list"
where
  "parse_ngx_string findall float data_string = parse_matches float (findall data_string) []"

section \<open>\<^verbatim>\<open>NGXOracleKeeper.should_update_price\<close> and the filter loop\<close>

text \<open>
  Python's \<^verbatim>\<open>/\<close> on floats raises \<^verbatim>\<open>ZeroDivisionError\<close> for a zero divisor and rounds the
  quotient otherwise.
\<close>

definition truediv :: "(real \<Rightarrow> real) \<Rightarrow> real \<Rightarrow> real \<Rightarrow> py_error + real" where
  "truediv rnd a b = (if b = 0 then Inl ZeroDivisionError else Inr (rnd (a / b)))"

text \<open>
  \<^verbatim>\<open>abs((new_price - old_price) / old_price * 100)\<close>: the subtraction, the division and the
  multiplication each round; \<^verbatim>\<open>100\<close> converts to the double 100 exactly.
\<close>

definition should_update_price ::
  "(real \<Rightarrow> real) \<Rightarrow> (string \<rightharpoonup> real) \<Rightarrow> real \<Rightarrow> string \<Rightarrow> real \<Rightarrow> py_error + bool"
where
  "should_update_price rnd lp min_pct sy new_price =
     (case lp sy of
        None \<Rightarrow> Inr True
      | Some old_price \<Rightarrow>
          if old_price = 0 then Inr True
          else (case truediv rnd (rnd (new_price - old_price)) old_price of
                  Inl e \<Rightarrow> Inl e
                | Inr q \<Rightarrow>
                    let price_change_pct = \<bar>rnd (q * 100)\<bar>
                    in if price_change_pct \<ge> min_pct then Inr True else Inr False))"

text \<open>Step 2 of \<^verbatim>\<open>update_prices\<close>: the loop that appends to \<^verbatim>\<open>stocks_to_update\<close>.\<close>

fun stocks_to_update ::
  "(real \<Rightarrow> real) \<Rightarrow> (string \<rightharpoonup> real) \<Rightarrow> real \<Rightarrow> stock list \<Rightarrow> (string \<times> real) list
     \<Rightarrow> py_error + (string \<times> real) list"
where
  "stocks_to_update rnd lp min_pct [] acc = Inr acc"
| "stocks_to_update rnd lp min_pct (st # rest) acc =
     (case should_update_price rnd lp min_pct (symbol st) (price st) of
        Inl e \<Rightarrow> Inl e
      | Inr b \<Rightarrow>
          stocks_to_update rnd lp min_pct rest
            (if b then acc @ [(symbol st, price st)] else acc))"

section \<open>Batching: \<^verbatim>\<open>for i in range(0, len(stocks_to_update), batch_size)\<close>\<close>

text \<open>
  The list of the slices \<^verbatim>\<open>stocks_to_update[i:i+batch_size]\<close> in the order of the loop. A
  negative step gives an empty \<^verbatim>\<open>range\<close>; step zero does not reach the loop (see
  \<open>update_prices\<close>).
\<close>

function batches_from :: "nat \<Rightarrow> int \<Rightarrow> 'a list \<Rightarrow> 'a list list" where
  "batches_from i batch_size xs =
     (if 0 < batch_size \<and> i < length xs
      then take (nat batch_size) (drop i xs) # batches_from (i + nat batch_size) batch_size xs
      else [])"
  by pat_completeness auto
termination
  by (relation "measure (\<lambda>(i, batch_size, xs). length xs - i)") auto

declare batches_from.simps [simp del]

definition make_batches :: "int \<Rightarrow> 'a list \<Rightarrow> 'a list list" where
  "make_batches batch_size xs = batches_from 0 batch_size xs"

section \<open>\<^verbatim>\<open>OracleContract\<close>: \<^verbatim>\<open>_send_transaction\<close> and \<^verbatim>\<open>batch_update_prices\<close>\<close>

definition send_transaction :: "web3 \<Rightarrow> transaction \<Rightarrow> receipt option" where
  "send_transaction w3 tx =
     (case wait_for_transaction_receipt w3 tx of
        None \<Rightarrow> None
      | Some r \<Rightarrow> if status r = 1 then Some r else None)"

definition base_gas :: int where "base_gas = 200000"
definition gas_per_stock :: int where "gas_per_stock = 150000"
definition max_gas :: int where "max_gas = 8000000"

definition gas_estimate :: "nat \<Rightarrow> int" where
  "gas_estimate n = min (base_gas + int n * gas_per_stock) max_gas"

text \<open>
  Lines 173 to 210 of \<^verbatim>\<open>batch_update_prices\<close>, up to the built transaction: the empty input,
  an exception, the gas check, or the transaction handed to \<^verbatim>\<open>_send_transaction\<close>.
  \<^verbatim>\<open>from_wei(g, 'gwei')\<close> is the exact decimal \<open>g / 10\<^sup>9\<close>.
\<close>

datatype prepared = NoPrices | Raised | GasTooHigh | Tx transaction

definition prepare_batch :: "web3 \<Rightarrow> (string \<times> real) list \<Rightarrow> int \<Rightarrow> prepared" where
  "prepare_batch w3 symbol_price_pairs max_gas_price_gwei =
     (if symbol_price_pairs = [] then NoPrices
      else
        let symbols = map fst symbol_price_pairs;
            prices_ngn = map snd symbol_price_pairs
        in case those (map (to_wei w3) prices_ngn) of
             None \<Rightarrow> Raised
           | Some prices_wei \<Rightarrow>
               (case eth_gas_price w3 0 of
                  None \<Rightarrow> Raised
                | Some g \<Rightarrow>
                    let current_gas = real_of_int g / 10 ^ 9
                    in if current_gas > real_of_int max_gas_price_gwei then GasTooHigh
                       else
                         (case get_transaction_count w3 of
                            None \<Rightarrow> Raised
                          | Some nonce \<Rightarrow>
                              (case eth_gas_price w3 1 of
                                 None \<Rightarrow> Raised
                               | Some gp \<Rightarrow>
                                   if build_transaction w3
                                   then Tx \<lparr>tx_symbols = symbols, tx_prices_wei = prices_wei,
                                            tx_nonce = nonce,
                                            tx_gas = gas_estimate (length symbols),
                                            tx_gasPrice = gp\<rparr>
                                   else Raised))))"

text \<open>
  The whole call. After a receipt with status 1 the cost is logged, which reads
  \<^verbatim>\<open>w3.eth.gas_price\<close> once more inside the same \<^verbatim>\<open>try\<close>; the divisions of the log
  are by \<^verbatim>\<open>len(symbols)\<close> and by the gas estimate, both positive here.
\<close>

definition batch_update_prices :: "web3 \<Rightarrow> (string \<times> real) list \<Rightarrow> int \<Rightarrow> receipt option" where
  "batch_update_prices w3 symbol_price_pairs max_gas_price_gwei =
     (case prepare_batch w3 symbol_price_pairs max_gas_price_gwei of
        Tx tx \<Rightarrow>
          (case send_transaction w3 tx of
             None \<Rightarrow> None
           | Some r \<Rightarrow>
               if status r = 1
               then (case eth_gas_price w3 2 of None \<Rightarrow> None | Some g \<Rightarrow> Some r)
               else Some r)
      | _ \<Rightarrow> None)"

section \<open>\<^verbatim>\<open>NGXOracleKeeper.update_prices\<close>\<close>

text \<open>The body of the batch loop for one batch; \<open>w3\<close> is what the chain answers to this call.\<close>

definition record_prices :: "(string \<times> real) list \<Rightarrow> (string \<rightharpoonup> real) \<Rightarrow> (string \<rightharpoonup> real)" where
  "record_prices batch lp = fold (\<lambda>(sy, p) m. m(sy \<mapsto> p)) batch lp"

definition process_batch :: "web3 \<Rightarrow> int \<Rightarrow> (string \<times> real) list \<Rightarrow> keeper \<Rightarrow> keeper" where
  "process_batch w3 max_gwei batch k =
     (let k1 = k\<lparr>contract_calls := contract_calls k @ [batch]\<rparr>
      in case batch_update_prices w3 batch max_gwei of
           Some r \<Rightarrow>
             k1\<lparr>last_prices := record_prices batch (last_prices k1),
                successful_updates := successful_updates k1 + 1,
                total_stocks_updated := total_stocks_updated k1 + int (length batch)\<rparr>
         | None \<Rightarrow> k1\<lparr>failed_updates := failed_updates k1 + 1\<rparr>)"

text \<open>The batch loop; \<open>chain n\<close> is what the chain answers to the \<open>n\<close>-th batch of the cycle.\<close>

fun submit_batches ::
  "(nat \<Rightarrow> web3) \<Rightarrow> int \<Rightarrow> nat \<Rightarrow> (string \<times> real) list list \<Rightarrow> keeper \<Rightarrow> keeper"
where
  "submit_batches chain max_gwei n [] k = k"
| "submit_batches chain max_gwei n (batch # rest) k =
     submit_batches chain max_gwei (Suc n) rest (process_batch (chain n) max_gwei batch k)"

text \<open>
  One cycle. \<open>fetched\<close> is the result of \<^verbatim>\<open>fetch_ngx_data()\<close> and \<open>mock\<close> the fallback list.
  The result is the returned boolean and the keeper afterwards. An exception inside the
  \<^verbatim>\<open>try\<close> (the filter's division, or \<^verbatim>\<open>// batch_size\<close> with \<open>BATCH_SIZE = 0\<close>) goes to the
  \<^verbatim>\<open>except\<close> branch.
\<close>

definition update_prices ::
  "(real \<Rightarrow> real) \<Rightarrow> config \<Rightarrow> (nat \<Rightarrow> web3) \<Rightarrow> stock list \<Rightarrow> stock list \<Rightarrow> keeper
     \<Rightarrow> bool \<times> keeper"
where
  "update_prices rnd cfg chain fetched mock k =
     (let all_stocks = (if fetched = [] then mock else fetched)
      in case stocks_to_update rnd (last_prices k) (MIN_PRICE_CHANGE_PERCENT cfg) all_stocks [] of
           Inl e \<Rightarrow> (False, k\<lparr>failed_updates := failed_updates k + 1\<rparr>)
         | Inr cands \<Rightarrow>
             if cands = [] then (True, k)
             else if BATCH_SIZE cfg = 0
             then (False, k\<lparr>failed_updates := failed_updates k + 1\<rparr>)
             else
               let k' = submit_batches chain (MAX_GAS_PRICE_GWEI cfg) 0
                          (make_batches (BATCH_SIZE cfg) cands) k
               in (True, k'\<lparr>total_updates := total_updates k' + 1\<rparr>))"

section \<open>Example environments\<close>

text \<open>
  A node that answers every request: the gas price is \<open>gas_wei\<close> at every read, the nonce is 7,
  and sending any transaction gives \<open>answer\<close>. The conversion to wei multiplies by \<open>10\<^sup>1\<^sup>8\<close>.
\<close>

definition example_node :: "int \<Rightarrow> receipt option \<Rightarrow> web3" where
  "example_node gas_wei answer =
     \<lparr>to_wei = (\<lambda>p. Some \<lfloor>p * 10 ^ 18\<rfloor>),
      eth_gas_price = (\<lambda>_. Some gas_wei),
      get_transaction_count = Some 7,
      build_transaction = True,
      wait_for_transaction_receipt = (\<lambda>_. answer)\<rparr>"

text \<open>
  The same node, except that the third read of the gas price (the one of the cost log, after
  the receipt) raises.
\<close>

definition example_node_flaky :: "int \<Rightarrow> receipt option \<Rightarrow> web3" where
  "example_node_flaky gas_wei answer =
     \<lparr>to_wei = (\<lambda>p. Some \<lfloor>p * 10 ^ 18\<rfloor>),
      eth_gas_price = (\<lambda>n. if n < 2 then Some gas_wei else None),
      get_transaction_count = Some 7,
      build_transaction = True,
      wait_for_transaction_receipt = (\<lambda>_. answer)\<rparr>"

definition receipt_ok :: receipt where
  "receipt_ok = \<lparr>status = 1, gasUsed = 300000, blockNumber = 12\<rparr>"

definition receipt_reverted :: receipt where
  "receipt_reverted = \<lparr>status = 0, gasUsed = 350000, blockNumber = 12\<rparr>"

text \<open>The keeper as \<^verbatim>\<open>__init__\<close> leaves it.\<close>

definition keeper_init :: keeper where
  "keeper_init =
     \<lparr>last_prices = Map.empty, total_updates = 0, successful_updates = 0,
      failed_updates = 0, total_stocks_updated = 0, contract_calls = []\<rparr>"

section \<open>Auxiliary facts\<close>

lemma parse_matches_bound:
  "\<forall>x \<in> set acc. price x \<le> 50000 \<Longrightarrow> \<forall>x \<in> set (parse_matches float ms acc). price x \<le> 50000"
proof (induction ms arbitrary: acc)
  case Nil
  then show ?case by simp
next
  case (Cons m ms)
  obtain sy g2 cs where m: "m = (sy, g2, cs)" by (cases m)
  have step: "\<forall>x \<in> set (acc @ [\<lparr>symbol = sy, price = p, change = c, source = src\<rparr>]). price x \<le> 50000"
    if "\<not> 50000 < p" for p c src
    using Cons.prems that by simp
  show ?case
    unfolding m using Cons.prems Cons.IH[OF Cons.prems] Cons.IH[OF step]
    by (simp split: option.splits)
qed

lemma should_update_price_no_error: "should_update_price rnd lp m s p \<noteq> Inl e"
  by (simp add: should_update_price_def truediv_def Let_def split: option.splits)

lemma stocks_to_update_filter:
  "stocks_to_update rnd lp m xs acc =
     Inr (acc @ map (\<lambda>st. (symbol st, price st))
                  (filter (\<lambda>st. should_update_price rnd lp m (symbol st) (price st) = Inr True) xs))"
proof (induction xs arbitrary: acc)
  case Nil
  show ?case by simp
next
  case (Cons st rest)
  show ?case
  proof (cases "should_update_price rnd lp m (symbol st) (price st)")
    case (Inl e)
    then show ?thesis using should_update_price_no_error by blast
  next
    case (Inr b)
    then show ?thesis by (cases b) (simp_all add: Cons.IH)
  qed
qed

text \<open>The candidates of one symbol are, in order, its observations that pass the test.\<close>

lemma candidates_of_symbol:
  "\<exists>cands. stocks_to_update rnd lp m stocks [] = Inr cands
     \<and> filter (\<lambda>(s, p). s = sy) cands =
         map (\<lambda>st. (sy, price st))
           (filter (\<lambda>st. symbol st = sy \<and> should_update_price rnd lp m sy (price st) = Inr True)
              stocks)"
proof (intro exI conjI)
  let ?dec = "\<lambda>st. should_update_price rnd lp m (symbol st) (price st) = Inr True"
  let ?cands = "map (\<lambda>st. (symbol st, price st)) (filter ?dec stocks)"
  show "stocks_to_update rnd lp m stocks [] = Inr ?cands"
    by (simp add: stocks_to_update_filter)
  have "filter (\<lambda>(s, p). s = sy) (map (\<lambda>st. (symbol st, price st)) xs) =
        map (\<lambda>st. (sy, price st)) (filter (\<lambda>st. symbol st = sy) xs)" for xs :: "stock list"
    by (induction xs) simp_all
  moreover have "filter (\<lambda>st. symbol st = sy) (filter ?dec stocks) =
        filter (\<lambda>st. symbol st = sy \<and> should_update_price rnd lp m sy (price st) = Inr True) stocks"
    by (induction stocks) auto
  ultimately show "filter (\<lambda>(s, p). s = sy) ?cands =
         map (\<lambda>st. (sy, price st))
           (filter (\<lambda>st. symbol st = sy \<and> should_update_price rnd lp m sy (price st) = Inr True)
              stocks)"
    by simp
qed

lemma concat_batches_from:
  "0 < bs \<Longrightarrow> concat (batches_from i bs xs) = drop i xs"
proof (induction i bs xs rule: batches_from.induct)
  case (1 i bs xs)
  show ?case
  proof (cases "i < length xs")
    case True
    with 1 have "concat (batches_from (i + nat bs) bs xs) = drop (i + nat bs) xs" by simp
    moreover have "batches_from i bs xs = take (nat bs) (drop i xs) # batches_from (i + nat bs) bs xs"
      using True 1(2) by (subst batches_from.simps) simp
    ultimately show ?thesis
      by (simp add: add.commute[of i] flip: drop_drop)
  next
    case False
    then show ?thesis by (subst batches_from.simps) simp
  qed
qed

lemma batches_from_length:
  "b \<in> set (batches_from i bs xs) \<Longrightarrow> b \<noteq> [] \<and> int (length b) \<le> bs"
proof (induction i bs xs rule: batches_from.induct)
  case (1 i bs xs)
  show ?case
  proof (cases "0 < bs \<and> i < length xs")
    case True
    then have eq: "batches_from i bs xs = take (nat bs) (drop i xs) # batches_from (i + nat bs) bs xs"
      by (subst batches_from.simps) simp
    from "1.prems" eq have "b = take (nat bs) (drop i xs) \<or> b \<in> set (batches_from (i + nat bs) bs xs)"
      by simp
    then show ?thesis
    proof
      assume "b = take (nat bs) (drop i xs)"
      with True show ?thesis by auto
    next
      assume "b \<in> set (batches_from (i + nat bs) bs xs)"
      with "1.IH" True show ?thesis by simp
    qed
  next
    case False
    with "1.prems" show ?thesis by (subst (asm) batches_from.simps) simp
  qed
qed

lemma submit_batches_calls:
  "contract_calls (submit_batches chain mx n bs k) = contract_calls k @ bs"
  by (induction bs arbitrary: n k)
     (simp_all add: process_batch_def Let_def split: option.splits)

lemma should_update_price_known:
  assumes "lp sy = Some old_price" and "old_price \<noteq> 0"
  shows "should_update_price rnd lp min_pct sy new_price
           = Inr (min_pct \<le> \<bar>rnd (rnd (rnd (new_price - old_price) / old_price) * 100)\<bar>)"
  using assms by (simp add: should_update_price_def truediv_def Let_def)







lemma binary64_zero: "binary64 0 = 0"
  by (simp add: binary64_def)

lemma binary64_at:
  assumes "2 powi e \<le> \<bar>x\<bar>" and "\<bar>x\<bar> < 2 powi (e + 1)"
  shows "binary64 x = of_int (round_half_even (x * 2 powi (52 - e))) * 2 powi (e - 52)"
proof -
  have pos: "0 < \<bar>x\<bar>" using assms(1) by (smt (verit) zero_less_power_int)
  have p1: "(2::real) powr real_of_int e = 2 powi e"
    by (rule powr_real_of_int') simp_all
  have p2: "(2::real) powr (real_of_int e + 1) = 2 powi (e + 1)"
    using powr_real_of_int'[of "2::real" "e + 1"] by simp
  have "\<lfloor>log 2 \<bar>x\<bar>\<rfloor> = e"
    using assms pos by (simp add: floor_log_eq_powr_iff p1 p2)
  with pos show ?thesis by (simp add: binary64_def Let_def)
qed







lemma binary64_sub_c: "binary64 (7057985041019699 / 70368744177664 - 100) = 21110623253299 / 70368744177664"
  by (subst binary64_at[where e = "-2"]) (simp_all add: round_half_even_def Let_def)

lemma binary64_div_c: "binary64 (21110623253299 / 70368744177664 / 100) = 864691128455127 / 288230376151711744"
  by (subst binary64_at[where e = "-9"]) (simp_all add: round_half_even_def Let_def)

lemma binary64_mul_c: "binary64 (864691128455127 / 288230376151711744 * 100) = 21110623253299 / 70368744177664"
  by (subst binary64_at[where e = "-2"]) (simp_all add: round_half_even_def Let_def)

lemma record_prices_eq: "record_prices batch lp = lp ++ map_of (rev batch)"
proof (induction batch rule: rev_induct)
  case Nil
  show ?case by (simp add: record_prices_def)
next
  case (snoc x xs)
  obtain sy p where x: "x = (sy, p)" by (cases x)
  have "record_prices (xs @ [x]) lp = (record_prices xs lp)(sy \<mapsto> p)"
    by (simp add: record_prices_def x)
  also have "\<dots> = (lp ++ map_of (rev xs))(sy \<mapsto> p)"
    by (simp only: snoc.IH)
  also have "\<dots> = lp ++ (map_of (rev xs))(sy \<mapsto> p)"
    by (simp only: map_add_upd)
  also have "(map_of (rev xs))(sy \<mapsto> p) = map_of (rev (xs @ [x]))"
    by (simp only: x rev_append rev.simps append.simps map_of.simps fst_conv snd_conv)
  finally show ?case .
qed

lemma process_batch_None:
  "batch_update_prices w3 batch mx = None \<Longrightarrow>
   process_batch w3 mx batch k =
     k\<lparr>contract_calls := contract_calls k @ [batch], failed_updates := failed_updates k + 1\<rparr>"
  by (simp add: process_batch_def Let_def)

lemma process_batch_Some:
  "batch_update_prices w3 batch mx = Some r \<Longrightarrow>
   process_batch w3 mx batch k =
     k\<lparr>contract_calls := contract_calls k @ [batch],
       last_prices := record_prices batch (last_prices k),
       successful_updates := successful_updates k + 1,
       total_stocks_updated := total_stocks_updated k + int (length batch)\<rparr>"
  by (simp add: process_batch_def Let_def)

lemma batch_update_prices_Some:
  "batch_update_prices w3 batch mx = Some r \<Longrightarrow>
     status r = 1 \<and> (\<exists>tx. prepare_batch w3 batch mx = Tx tx
                         \<and> wait_for_transaction_receipt w3 tx = Some r)"
  by (auto simp: batch_update_prices_def send_transaction_def
           split: prepared.splits option.splits if_splits)

lemma prepare_batch_gas:
  "prepare_batch w3 pairs mx = Tx tx \<Longrightarrow> tx_gas tx = gas_estimate (length pairs)"
  by (auto simp: prepare_batch_def Let_def split: if_splits option.splits)

lemma prepare_batch_GasTooHigh:
  assumes "batch \<noteq> []"
    and "those (map (to_wei w3) (map snd batch)) = Some prices_wei"
    and "eth_gas_price w3 0 = Some g"
    and "real_of_int g / 10 ^ 9 > real_of_int mx"
  shows "prepare_batch w3 batch mx = GasTooHigh"
  using assms by (simp add: prepare_batch_def Let_def)

lemma batch_update_prices_gated:
  "prepare_batch w3 batch mx = GasTooHigh \<Longrightarrow> batch_update_prices w3 batch mx = None"
  by (simp add: batch_update_prices_def)

lemma batch_update_prices_failed:
  assumes "prepare_batch w3 batch mx = Raised
         \<or> (\<exists>tx. prepare_batch w3 batch mx = Tx tx
               \<and> (wait_for_transaction_receipt w3 tx = None
                  \<or> (\<exists>r. wait_for_transaction_receipt w3 tx = Some r \<and> status r \<noteq> 1)))"
  shows "batch_update_prices w3 batch mx = None"
  using assms by (auto simp: batch_update_prices_def send_transaction_def)

lemma batch_update_prices_receipt_iff:
  "batch_update_prices w3 batch mx = Some r \<longleftrightarrow>
     (\<exists>tx. prepare_batch w3 batch mx = Tx tx
         \<and> wait_for_transaction_receipt w3 tx = Some r \<and> status r = 1
         \<and> eth_gas_price w3 2 \<noteq> None)"
  by (auto simp: batch_update_prices_def send_transaction_def
           split: prepared.splits option.splits if_splits)

lemma prepare_ok:
  "prepare_batch (example_node 20000000000 answer) [(''A'', 100)] 50 =
     Tx \<lparr>tx_symbols = [''A''], tx_prices_wei = [100000000000000000000], tx_nonce = 7,
         tx_gas = 350000, tx_gasPrice = 20000000000\<rparr>"
  by (simp add: prepare_batch_def example_node_def gas_estimate_def base_gas_def
        gas_per_stock_def max_gas_def)

text \<open>
  What one pass of the loop body does to \<open>last_prices\<close>: the prices of the batch are stored
  exactly when \<^verbatim>\<open>batch_update_prices\<close> returns a receipt.
\<close>

lemma process_batch_last_prices:
  "(\<forall>r. batch_update_prices w3 batch max_gwei = Some r \<longleftrightarrow>
        (\<exists>tx. prepare_batch w3 batch max_gwei = Tx tx
            \<and> wait_for_transaction_receipt w3 tx = Some r \<and> status r = 1
            \<and> eth_gas_price w3 2 \<noteq> None))
   \<and> (\<forall>sy \<in> fst ` set batch.
        last_prices (process_batch w3 max_gwei batch k) sy =
          (if batch_update_prices w3 batch max_gwei \<noteq> None then map_of (rev batch) sy
           else last_prices k sy))
   \<and> (\<forall>sy. sy \<notin> fst ` set batch \<longrightarrow>
        last_prices (process_batch w3 max_gwei batch k) sy = last_prices k sy)
   \<and> (batch_update_prices w3 batch max_gwei = None \<longrightarrow>
        last_prices (process_batch w3 max_gwei batch k) = last_prices k)"
proof -
  have first: "\<forall>r. batch_update_prices w3 batch max_gwei = Some r \<longleftrightarrow>
        (\<exists>tx. prepare_batch w3 batch max_gwei = Tx tx
            \<and> wait_for_transaction_receipt w3 tx = Some r \<and> status r = 1
            \<and> eth_gas_price w3 2 \<noteq> None)"
    by (simp only: batch_update_prices_receipt_iff) simp
  have rest: "(\<forall>sy \<in> fst ` set batch.
        last_prices (process_batch w3 max_gwei batch k) sy =
          (if batch_update_prices w3 batch max_gwei \<noteq> None then map_of (rev batch) sy
           else last_prices k sy))
   \<and> (\<forall>sy. sy \<notin> fst ` set batch \<longrightarrow>
        last_prices (process_batch w3 max_gwei batch k) sy = last_prices k sy)
   \<and> (batch_update_prices w3 batch max_gwei = None \<longrightarrow>
        last_prices (process_batch w3 max_gwei batch k) = last_prices k)"
  proof (cases "batch_update_prices w3 batch max_gwei")
    case None
    then show ?thesis by (simp add: process_batch_None[OF None])
  next
    case (Some r)
    have in_batch: "(last_prices k ++ map_of (rev batch)) sy = map_of (rev batch) sy"
      if "sy \<in> fst ` set batch" for sy
    proof -
      from that have "sy \<in> dom (map_of (rev batch))" by (simp add: dom_map_of_conv_image_fst)
      then show ?thesis by (auto simp: map_add_dom_app_simps)
    qed
    have out_batch: "(last_prices k ++ map_of (rev batch)) sy = last_prices k sy"
      if "sy \<notin> fst ` set batch" for sy
    proof -
      from that have "sy \<notin> dom (map_of (rev batch))" by (simp add: dom_map_of_conv_image_fst)
      then show ?thesis by (simp add: map_add_dom_app_simps)
    qed
    from in_batch out_batch show ?thesis
      by (simp add: Some process_batch_Some[OF Some] record_prices_eq)
  qed
  from first rest show ?thesis by blast
qed

lemma prepare_flaky:
  "prepare_batch (example_node_flaky 20000000000 answer) [(''A'', 100)] 50 =
     Tx \<lparr>tx_symbols = [''A''], tx_prices_wei = [100000000000000000000], tx_nonce = 7,
         tx_gas = 350000, tx_gasPrice = 20000000000\<rparr>"
  by (simp add: prepare_batch_def example_node_flaky_def gas_estimate_def base_gas_def
        gas_per_stock_def max_gas_def)

section \<open>Claims about the parser and the change filter\<close>

text \<open>
  Claim C10. For every input string (and whatever \<^verbatim>\<open>re.findall\<close> and \<^verbatim>\<open>float\<close> return on it),
  every entry of the list returned by \<open>parse_ngx_string\<close> has a price of at most 50000: a match
  whose price parses above 50000 is skipped by the \<^verbatim>\<open>continue\<close> and is not in the output that
  the keeper filters.
\<close>

theorem parse_ngx_string_price_bound:
  "\<forall>st \<in> set (parse_ngx_string findall float data_string). price st \<le> 50000"
  unfolding parse_ngx_string_def by (rule parse_matches_bound) simp

theorem parse_ngx_string_price_bound_witness:
  "parse_ngx_string (\<lambda>_. [(''DANGCEM'', ''450.50'', ''0.00''), (''BOND'', ''100,000'', [])])
       (map_of [(''450.50'', 450.5), (''0.00'', 0), (''100000'', 100000)]) ''x''
     = [\<lparr>symbol = ''DANGCEM'', price = 450.5, change = 0, source = ''NGX Website (30min delayed)''\<rparr>]
   \<and> list_all (\<lambda>st. price st \<le> 50000)
        (parse_ngx_string (\<lambda>_. [(''DANGCEM'', ''450.50'', ''0.00''), (''BOND'', ''100,000'', [])])
           (map_of [(''450.50'', 450.5), (''0.00'', 0), (''100000'', 100000)]) ''x'')"
  using parse_ngx_string_price_bound
    [of "\<lambda>_. [(''DANGCEM'', ''450.50'', ''0.00''), (''BOND'', ''100,000'', [])]"
        "map_of [(''450.50'', 450.5), (''0.00'', 0), (''100000'', 100000)]" "''x''"]
  by (simp add: parse_ngx_string_def remove_commas_def)



text \<open>
  Claim C6. A symbol that is absent from \<open>last_prices\<close> is always a candidate, whatever its
  price and whatever the threshold: \<open>should_update_price\<close> returns \<open>True\<close> at its first
  \<^verbatim>\<open>return\<close> (the branch the specification calls NEW), and in every observation sequence each
  observation of that symbol is in \<open>stocks_to_update\<close>. A candidate of the code is the pair
  \<open>(symbol, price)\<close>.
\<close>

theorem unseen_symbol_always_candidate:
  assumes "lp sy = None"
  shows "should_update_price rnd lp min_pct sy new_price = Inr True
       \<and> (\<forall>stocks. \<exists>cands. stocks_to_update rnd lp min_pct stocks [] = Inr cands
            \<and> (\<forall>st \<in> set stocks. symbol st = sy \<longrightarrow> (sy, price st) \<in> set cands))"
proof -
  have dec: "should_update_price rnd lp m sy p = Inr True" for m p
    using assms by (simp add: should_update_price_def)
  have "\<exists>cands. stocks_to_update rnd lp min_pct stocks [] = Inr cands
            \<and> (\<forall>st \<in> set stocks. symbol st = sy \<longrightarrow> (sy, price st) \<in> set cands)" for stocks
  proof (intro exI conjI ballI impI)
    show "stocks_to_update rnd lp min_pct stocks [] =
        Inr ([] @ map (\<lambda>st. (symbol st, price st))
               (filter (\<lambda>st. should_update_price rnd lp min_pct (symbol st) (price st) = Inr True) stocks))"
      by (rule stocks_to_update_filter)
  next
    fix st assume st: "st \<in> set stocks" "symbol st = sy"
    then have "should_update_price rnd lp min_pct (symbol st) (price st) = Inr True"
      using dec by simp
    with st show "(sy, price st) \<in> set ([] @ map (\<lambda>st. (symbol st, price st))
               (filter (\<lambda>st. should_update_price rnd lp min_pct (symbol st) (price st) = Inr True) stocks))"
      by force
  qed
  with dec show ?thesis by blast
qed

theorem unseen_symbol_always_candidate_witness:
  "should_update_price binary64 Map.empty 1000 ''A'' 0 = Inr True
   \<and> stocks_to_update binary64 Map.empty 1000 [\<lparr>symbol = ''A'', price = 0, change = 0, source = []\<rparr>] []
       = Inr [(''A'', 0)]"
  using unseen_symbol_always_candidate[of Map.empty "''A''" binary64 1000 0]
  by (simp add: should_update_price_def)

text \<open>
  Claim C7. For a symbol whose stored last price is 0, \<open>should_update_price\<close> returns \<open>True\<close>
  before the division is reached, and in every observation sequence every observation of
  that symbol is a candidate, in order. For no input at all does \<open>should_update_price\<close>, or
  the filter loop over any observation list, raise \<^verbatim>\<open>ZeroDivisionError\<close> (or any other
  error).
\<close>

theorem zero_old_price_no_division:
  "(lp sy = Some 0 \<longrightarrow>
      should_update_price rnd lp min_pct sy new_price = Inr True
      \<and> (\<forall>obs. \<exists>cands. stocks_to_update rnd lp min_pct obs [] = Inr cands
            \<and> filter (\<lambda>(s, p). s = sy) cands =
                map (\<lambda>st. (sy, price st)) (filter (\<lambda>st. symbol st = sy) obs)))
   \<and> (\<forall>e. should_update_price rnd lp min_pct sy new_price \<noteq> Inl e)
   \<and> (\<forall>e. stocks_to_update rnd lp min_pct stocks acc \<noteq> Inl e)"
proof -
  have emit: "should_update_price rnd lp min_pct sy new_price = Inr True
      \<and> (\<forall>obs. \<exists>cands. stocks_to_update rnd lp min_pct obs [] = Inr cands
            \<and> filter (\<lambda>(s, p). s = sy) cands =
                map (\<lambda>st. (sy, price st)) (filter (\<lambda>st. symbol st = sy) obs))"
    if zero: "lp sy = Some 0"
  proof -
    have dec: "should_update_price rnd lp min_pct sy p = Inr True" for p
      using zero by (simp add: should_update_price_def)
    have "\<exists>cands. stocks_to_update rnd lp min_pct obs [] = Inr cands
            \<and> filter (\<lambda>(s, p). s = sy) cands =
                map (\<lambda>st. (sy, price st)) (filter (\<lambda>st. symbol st = sy) obs)" for obs
      using candidates_of_symbol[of rnd lp min_pct obs sy] by (simp add: dec)
    with dec show ?thesis by blast
  qed
  have no1: "\<forall>e. should_update_price rnd lp min_pct sy new_price \<noteq> Inl e"
    by (simp add: should_update_price_no_error)
  have no2: "\<forall>e. stocks_to_update rnd lp min_pct stocks acc \<noteq> Inl e"
    by (simp add: stocks_to_update_filter)
  from emit no1 no2 show ?thesis by blast
qed

theorem zero_old_price_no_division_witness:
  "should_update_price binary64 [''A'' \<mapsto> 0, ''B'' \<mapsto> 3] 10 ''A'' 100 = Inr True
   \<and> stocks_to_update binary64 [''A'' \<mapsto> 0, ''B'' \<mapsto> 3] 10
        [\<lparr>symbol = ''A'', price = 100, change = 0, source = []\<rparr>,
         \<lparr>symbol = ''B'', price = 3, change = 0, source = []\<rparr>,
         \<lparr>symbol = ''A'', price = 0, change = 0, source = []\<rparr>] []
       = Inr [(''A'', 100), (''A'', 0)]"
proof -
  have z: "[''A'' \<mapsto> 0 :: real, ''B'' \<mapsto> 3] ''A'' = Some 0" by simp
  note t = zero_old_price_no_division[of "[''A'' \<mapsto> 0, ''B'' \<mapsto> 3]" "''A''" binary64 10]
  have a: "should_update_price binary64 [''A'' \<mapsto> 0, ''B'' \<mapsto> 3] 10 ''A'' p = Inr True" for p
    using t[of p] z by blast
  have b: "should_update_price binary64 [''A'' \<mapsto> 0, ''B'' \<mapsto> 3] 10 ''B'' 3 = Inr False"
    by (simp add: should_update_price_def truediv_def binary64_zero)
  show ?thesis
    unfolding stocks_to_update.simps stock.simps a b by (simp add: a)
qed

section \<open>Claims about batching\<close>

text \<open>
  Claim C3. For every candidate list and every \<open>batch_size \<ge> 1\<close>, concatenating the batches in
  order gives back the candidate list, and every batch is non-empty and has at most
  \<open>batch_size\<close> items.
\<close>

theorem batches_partition:
  assumes "1 \<le> batch_size"
  shows "concat (make_batches batch_size xs) = xs
       \<and> (\<forall>b \<in> set (make_batches batch_size xs). b \<noteq> [] \<and> int (length b) \<le> batch_size)"
  using assms concat_batches_from[of batch_size 0 xs] batches_from_length[of _ 0 batch_size xs]
  by (auto simp: make_batches_def)

theorem batches_partition_witness:
  "(1::int) \<le> 2 \<and> make_batches 2 [1::nat, 2, 3, 4, 5] = [[1, 2], [3, 4], [5]]
   \<and> concat (make_batches 2 [1::nat, 2, 3, 4, 5]) = [1, 2, 3, 4, 5]
   \<and> list_all (\<lambda>b. b \<noteq> [] \<and> int (length b) \<le> 2) (make_batches 2 [1::nat, 2, 3, 4, 5])"
  using batches_partition[of 2 "[1::nat, 2, 3, 4, 5]"]
  by (simp add: make_batches_def batches_from.simps)

section \<open>Claims about the gas estimate\<close>

text \<open>
  Claim C5, as stated, with configurable gas-model constants: with a base overhead of 100000
  and a per-item cost of 50000 the formula gives 150000 for one item, but the transaction
  built for a one-item batch carries 350000. The constants are the literals 200000, 150000 and
  8000000 of \<^verbatim>\<open>batch_update_prices\<close>; neither \<^verbatim>\<open>Config\<close> nor the function's parameters
  reach them.
\<close>

theorem gas_constants_fixed_counterexample:
  "prepare_batch (example_node 20000000000 (Some receipt_ok)) [(''A'', 100)] 50 =
     Tx \<lparr>tx_symbols = [''A''], tx_prices_wei = [100000000000000000000], tx_nonce = 7,
         tx_gas = 350000, tx_gasPrice = 20000000000\<rparr>
   \<and> gas_estimate 1 \<noteq> min (100000 + int 1 * 50000) 8000000"
  by (simp add: prepare_ok gas_estimate_def base_gas_def gas_per_stock_def max_gas_def)

text \<open>
  Claim C5, amended. For every batch of \<open>n\<close> items for which \<^verbatim>\<open>batch_update_prices\<close> builds a
  transaction, the gas attached to it is \<open>min (200000 + n * 150000) 8000000\<close>, with the three
  constants fixed in the code; so the attached gas never exceeds 8000000.
\<close>

theorem batch_gas_estimate:
  assumes "prepare_batch w3 symbol_price_pairs max_gas_price_gwei = Tx tx"
  shows "tx_gas tx = min (200000 + int (length symbol_price_pairs) * 150000) 8000000
       \<and> tx_gas tx \<le> 8000000"
  using prepare_batch_gas[OF assms]
  by (simp add: gas_estimate_def base_gas_def gas_per_stock_def max_gas_def)

theorem batch_gas_estimate_witness:
  "prepare_batch (example_node 20000000000 (Some receipt_ok)) [(''A'', 100)] 50 =
     Tx \<lparr>tx_symbols = [''A''], tx_prices_wei = [100000000000000000000], tx_nonce = 7,
         tx_gas = 350000, tx_gasPrice = 20000000000\<rparr>
   \<and> (350000 :: int) = min (200000 + int (length [(''A'', 100 :: real)]) * 150000) 8000000"
proof -
  have p: "prepare_batch (example_node 20000000000 (Some receipt_ok)) [(''A'', 100)] 50 =
     Tx \<lparr>tx_symbols = [''A''], tx_prices_wei = [100000000000000000000], tx_nonce = 7,
         tx_gas = 350000, tx_gasPrice = 20000000000\<rparr>"
    by (simp add: prepare_batch_def example_node_def gas_estimate_def base_gas_def
        gas_per_stock_def max_gas_def)
  from batch_gas_estimate[OF p] p show ?thesis by simp
qed

section \<open>Claims about the batch loop\<close>

text \<open>
  Claim C1, as stated, says that a gas-gated batch does not increment the failed-batch
  counter. With a gas price of 60 gwei and a ceiling of 50 the gas check rejects the batch, and
  \<open>failed_updates\<close> goes from 0 to 1: \<^verbatim>\<open>batch_update_prices\<close> returns \<^verbatim>\<open>None\<close> for the
  skip as for a failure, and \<^verbatim>\<open>update_prices\<close> has one \<^verbatim>\<open>else\<close> branch for both.
\<close>

theorem gas_gate_counts_failure_counterexample:
  "prepare_batch (example_node 60000000000 (Some receipt_ok)) [(''A'', 100)] 50 = GasTooHigh
   \<and> failed_updates keeper_init = 0
   \<and> failed_updates
        (process_batch (example_node 60000000000 (Some receipt_ok)) 50 [(''A'', 100)] keeper_init) = 1"
proof -
  have g: "prepare_batch (example_node 60000000000 (Some receipt_ok)) [(''A'', 100)] 50 = GasTooHigh"
    by (simp add: prepare_batch_def example_node_def)
  then have "batch_update_prices (example_node 60000000000 (Some receipt_ok)) [(''A'', 100)] 50 = None"
    by (simp add: batch_update_prices_def)
  then show ?thesis using g by (simp add: process_batch_def keeper_init_def)
qed

text \<open>
  Claim C1, amended. When the gas price read for a batch is above the configured maximum,
  no transaction is built and \<^verbatim>\<open>batch_update_prices\<close> returns \<^verbatim>\<open>None\<close>; \<open>last_prices\<close> is
  unchanged (for every symbol), the success counters are unchanged, the loop goes on with the
  remaining batches (each of them is passed to the chain client), and the skip is counted as
  a failed batch: \<open>failed_updates\<close> is incremented by one.
\<close>

theorem gas_gate_skips_batch:
  assumes "batch \<noteq> []"
    and "those (map (to_wei (chain n)) (map snd batch)) = Some prices_wei"
    and "eth_gas_price (chain n) 0 = Some g"
    and "real_of_int g / 10 ^ 9 > real_of_int max_gwei"
  shows "prepare_batch (chain n) batch max_gwei = GasTooHigh
       \<and> batch_update_prices (chain n) batch max_gwei = None
       \<and> last_prices (process_batch (chain n) max_gwei batch k) = last_prices k
       \<and> successful_updates (process_batch (chain n) max_gwei batch k) = successful_updates k
       \<and> total_stocks_updated (process_batch (chain n) max_gwei batch k) = total_stocks_updated k
       \<and> failed_updates (process_batch (chain n) max_gwei batch k) = failed_updates k + 1
       \<and> submit_batches chain max_gwei n (batch # rest) k =
           submit_batches chain max_gwei (Suc n) rest
             (k\<lparr>contract_calls := contract_calls k @ [batch],
                failed_updates := failed_updates k + 1\<rparr>)
       \<and> contract_calls (submit_batches chain max_gwei n (batch # rest) k)
           = contract_calls k @ batch # rest"
proof -
  have gated: "prepare_batch (chain n) batch max_gwei = GasTooHigh"
    by (rule prepare_batch_GasTooHigh[OF assms])
  have none: "batch_update_prices (chain n) batch max_gwei = None"
    by (rule batch_update_prices_gated[OF gated])
  show ?thesis
    by (simp add: gated none process_batch_None[OF none] submit_batches_calls)
qed

theorem gas_gate_skips_batch_witness:
  "failed_updates
     (process_batch (example_node 60000000000 (Some receipt_ok)) 50 [(''A'', 100)] keeper_init) = 1
   \<and> last_prices
     (process_batch (example_node 60000000000 (Some receipt_ok)) 50 [(''A'', 100)] keeper_init)
       = Map.empty
   \<and> contract_calls
       (submit_batches (\<lambda>_. example_node 60000000000 (Some receipt_ok)) 50 0
          [[(''A'', 100)], [(''B'', 50)]] keeper_init)
       = [[(''A'', 100)], [(''B'', 50)]]"
proof -
  have h1: "[(''A'', 100 :: real)] \<noteq> []" by simp
  have h2: "those (map (to_wei (example_node 60000000000 (Some receipt_ok)))
                    (map snd [(''A'', 100 :: real)])) = Some [100000000000000000000]"
    by (simp add: example_node_def)
  have h3: "eth_gas_price (example_node 60000000000 (Some receipt_ok)) 0 = Some 60000000000"
    by (simp add: example_node_def)
  have h4: "real_of_int 60000000000 / 10 ^ 9 > real_of_int 50" by simp
  note t = gas_gate_skips_batch[of "[(''A'', 100)]" "\<lambda>_. example_node 60000000000 (Some receipt_ok)" 0
      "[100000000000000000000]" 60000000000 50 keeper_init "[[(''B'', 50)]]", OF h1 h2 h3 h4]
  have c1: "failed_updates
     (process_batch (example_node 60000000000 (Some receipt_ok)) 50 [(''A'', 100)] keeper_init)
       = failed_updates keeper_init + 1"
    using t by blast
  have c2: "last_prices
     (process_batch (example_node 60000000000 (Some receipt_ok)) 50 [(''A'', 100)] keeper_init)
       = last_prices keeper_init"
    using t by blast
  have c3: "contract_calls
       (submit_batches (\<lambda>_. example_node 60000000000 (Some receipt_ok)) 50 0
          [[(''A'', 100)], [(''B'', 50)]] keeper_init)
       = contract_calls keeper_init @ [[(''A'', 100)], [(''B'', 50)]]"
    using t by blast
  show ?thesis unfolding c1 c2 c3 by (simp add: keeper_init_def)
qed

text \<open>
  Claim C8. When the chain client fails for a batch (an exception while preparing or sending
  the transaction, a timeout, or a receipt whose status is not 1), \<open>failed_updates\<close> is
  incremented by one, \<open>last_prices\<close> is unchanged, and the loop goes on with the remaining
  batches: every batch of the cycle is passed to the chain client.
\<close>

theorem failed_batch_counted:
  assumes "prepare_batch (chain n) batch max_gwei = Raised
         \<or> (\<exists>tx. prepare_batch (chain n) batch max_gwei = Tx tx
               \<and> (wait_for_transaction_receipt (chain n) tx = None
                  \<or> (\<exists>r. wait_for_transaction_receipt (chain n) tx = Some r \<and> status r \<noteq> 1)))"
  shows "batch_update_prices (chain n) batch max_gwei = None
       \<and> failed_updates (process_batch (chain n) max_gwei batch k) = failed_updates k + 1
       \<and> last_prices (process_batch (chain n) max_gwei batch k) = last_prices k
       \<and> successful_updates (process_batch (chain n) max_gwei batch k) = successful_updates k
       \<and> submit_batches chain max_gwei n (batch # rest) k =
           submit_batches chain max_gwei (Suc n) rest
             (k\<lparr>contract_calls := contract_calls k @ [batch],
                failed_updates := failed_updates k + 1\<rparr>)
       \<and> contract_calls (submit_batches chain max_gwei n (batch # rest) k)
           = contract_calls k @ batch # rest"
proof -
  have none: "batch_update_prices (chain n) batch max_gwei = None"
    by (rule batch_update_prices_failed[OF assms])
  show ?thesis
    by (simp add: none process_batch_None[OF none] submit_batches_calls)
qed

theorem failed_batch_counted_witness:
  "failed_updates
     (process_batch (example_node 20000000000 (Some receipt_reverted)) 50 [(''A'', 100)] keeper_init) = 1
   \<and> last_prices
     (process_batch (example_node 20000000000 (Some receipt_reverted)) 50 [(''A'', 100)] keeper_init)
       = Map.empty
   \<and> contract_calls
       (submit_batches (\<lambda>_. example_node 20000000000 (Some receipt_reverted)) 50 0
          [[(''A'', 100)], [(''B'', 50)]] keeper_init)
       = [[(''A'', 100)], [(''B'', 50)]]"
proof -
  have h: "prepare_batch (example_node 20000000000 (Some receipt_reverted)) [(''A'', 100)] 50 = Raised
         \<or> (\<exists>tx. prepare_batch (example_node 20000000000 (Some receipt_reverted)) [(''A'', 100)] 50 = Tx tx
               \<and> (wait_for_transaction_receipt (example_node 20000000000 (Some receipt_reverted)) tx = None
                  \<or> (\<exists>r. wait_for_transaction_receipt (example_node 20000000000 (Some receipt_reverted)) tx = Some r
                         \<and> status r \<noteq> 1)))"
    by (simp add: prepare_ok) (simp add: example_node_def receipt_reverted_def)
  note t = failed_batch_counted[of "\<lambda>_. example_node 20000000000 (Some receipt_reverted)" 0
      "[(''A'', 100)]" 50 keeper_init "[[(''B'', 50)]]", OF h]
  have c1: "failed_updates
     (process_batch (example_node 20000000000 (Some receipt_reverted)) 50 [(''A'', 100)] keeper_init)
       = failed_updates keeper_init + 1"
    using t by blast
  have c2: "last_prices
     (process_batch (example_node 20000000000 (Some receipt_reverted)) 50 [(''A'', 100)] keeper_init)
       = last_prices keeper_init"
    using t by blast
  have c3: "contract_calls
       (submit_batches (\<lambda>_. example_node 20000000000 (Some receipt_reverted)) 50 0
          [[(''A'', 100)], [(''B'', 50)]] keeper_init)
       = contract_calls keeper_init @ [[(''A'', 100)], [(''B'', 50)]]"
    using t by blast
  show ?thesis unfolding c1 c2 c3 by (simp add: keeper_init_def)
qed

text \<open>
  Claim C2 at a failing input. The batch \<open>[(A, 100)]\<close> is sent with the gas price at 20 gwei
  under a ceiling of 50, and its receipt has status 1: \<^verbatim>\<open>_send_transaction\<close> returns the
  receipt. The read of \<^verbatim>\<open>w3.eth.gas_price\<close> for the cost log then raises inside the same
  \<^verbatim>\<open>try\<close>, so \<^verbatim>\<open>batch_update_prices\<close> returns \<^verbatim>\<open>None\<close>: the keeper counts a failed
  batch and does not store the price of \<open>A\<close>, although the batch was confirmed.
\<close>

theorem confirmed_batch_not_recorded:
  "prepare_batch (example_node_flaky 20000000000 (Some receipt_ok)) [(''A'', 100)] 50 =
     Tx \<lparr>tx_symbols = [''A''], tx_prices_wei = [100000000000000000000], tx_nonce = 7,
         tx_gas = 350000, tx_gasPrice = 20000000000\<rparr>
   \<and> send_transaction (example_node_flaky 20000000000 (Some receipt_ok))
        \<lparr>tx_symbols = [''A''], tx_prices_wei = [100000000000000000000], tx_nonce = 7,
         tx_gas = 350000, tx_gasPrice = 20000000000\<rparr> = Some receipt_ok
   \<and> status receipt_ok = 1
   \<and> batch_update_prices (example_node_flaky 20000000000 (Some receipt_ok)) [(''A'', 100)] 50 = None
   \<and> last_prices (process_batch (example_node_flaky 20000000000 (Some receipt_ok)) 50
        [(''A'', 100)] keeper_init) ''A'' = None
   \<and> successful_updates (process_batch (example_node_flaky 20000000000 (Some receipt_ok)) 50
        [(''A'', 100)] keeper_init) = 0
   \<and> failed_updates (process_batch (example_node_flaky 20000000000 (Some receipt_ok)) 50
        [(''A'', 100)] keeper_init) = 1"
proof -
  have sent: "send_transaction (example_node_flaky 20000000000 (Some receipt_ok))
        \<lparr>tx_symbols = [''A''], tx_prices_wei = [100000000000000000000], tx_nonce = 7,
         tx_gas = 350000, tx_gasPrice = 20000000000\<rparr> = Some receipt_ok"
    by (simp add: send_transaction_def example_node_flaky_def receipt_ok_def)
  have st: "status receipt_ok = 1" by (simp add: receipt_ok_def)
  have none: "batch_update_prices (example_node_flaky 20000000000 (Some receipt_ok))
                [(''A'', 100)] 50 = None"
    by (simp add: batch_update_prices_def prepare_flaky sent st)
       (simp add: example_node_flaky_def)
  show ?thesis
    by (simp add: prepare_flaky sent st none process_batch_None[OF none] keeper_init_def)
qed

text \<open>
  Claim C9. When the filter yields no candidate, \<^verbatim>\<open>update_prices\<close> returns \<^verbatim>\<open>True\<close> and the
  keeper is exactly as before: \<open>last_prices\<close> and all counters are unchanged, and the history
  of chain-client calls is unchanged, so the chain client is not called.
\<close>

theorem no_candidates_no_batches:
  assumes "stocks_to_update rnd (last_prices k) (MIN_PRICE_CHANGE_PERCENT cfg)
             (if fetched = [] then mock else fetched) [] = Inr []"
  shows "update_prices rnd cfg chain fetched mock k = (True, k)"
  using assms by (simp add: update_prices_def Let_def)

theorem no_candidates_no_batches_witness:
  "update_prices binary64 \<lparr>MIN_PRICE_CHANGE_PERCENT = 0.5, BATCH_SIZE = 20, MAX_GAS_PRICE_GWEI = 50\<rparr>
      (\<lambda>_. example_node 20000000000 (Some receipt_ok))
      [\<lparr>symbol = ''A'', price = 7057985041019699 / 70368744177664, change = 0, source = []\<rparr>] []
      (keeper_init\<lparr>last_prices := [''A'' \<mapsto> 100]\<rparr>)
    = (True, keeper_init\<lparr>last_prices := [''A'' \<mapsto> 100]\<rparr>)"
proof -
  have l: "[''A'' \<mapsto> 100 :: real] ''A'' = Some 100" by simp
  have "should_update_price binary64 [''A'' \<mapsto> 100] 0.5 ''A'' (7057985041019699 / 70368744177664)
          = Inr (0.5 \<le> \<bar>binary64 (binary64 (binary64 (7057985041019699 / 70368744177664 - 100) / 100) * 100)\<bar>)"
    by (rule should_update_price_known[of "[''A'' \<mapsto> 100]" "''A''" 100, OF l]) simp
  then have dec: "should_update_price binary64 [''A'' \<mapsto> 100] 0.5 ''A''
                    (7057985041019699 / 70368744177664) = Inr False"
    by (simp only: binary64_sub_c binary64_div_c binary64_mul_c) simp
  have h: "stocks_to_update binary64 (last_prices (keeper_init\<lparr>last_prices := [''A'' \<mapsto> 100]\<rparr>))
             (MIN_PRICE_CHANGE_PERCENT \<lparr>MIN_PRICE_CHANGE_PERCENT = 0.5, BATCH_SIZE = 20, MAX_GAS_PRICE_GWEI = 50\<rparr>)
             (if [\<lparr>symbol = ''A'', price = 7057985041019699 / 70368744177664, change = 0, source = []\<rparr>] = [] then []
              else [\<lparr>symbol = ''A'', price = 7057985041019699 / 70368744177664, change = 0, source = []\<rparr>]) [] = Inr []"
    using dec by (simp add: keeper_init_def)
  from no_candidates_no_batches[OF h] show ?thesis .
qed

end
